theory Spec2Isabelle
  imports Complex_Main
begin

section \<open>Scoring (server/ai-service.ts)\<close>

text \<open>
  The question schema of shared/schema.ts: \<open>correct\<close> is the enum
  \<open>"A" | "B" | "C" | "D"\<close>, \<open>difficulty\<close> the enum \<open>"easy" | "medium" | "hard"\<close>.
  At run time both are strings; \<open>letter_string\<close> gives the string an enum value is.
\<close>

datatype correct_letter = Letter_A | Letter_B | Letter_C | Letter_D

datatype difficulty_tier = Easy | Medium | Hard

fun letter_string :: "correct_letter \<Rightarrow> string" where
  "letter_string Letter_A = ''A''"
| "letter_string Letter_B = ''B''"
| "letter_string Letter_C = ''C''"
| "letter_string Letter_D = ''D''"

record Question =
  question :: string
  options :: "string list"
  correct :: correct_letter
  difficulty :: difficulty_tier

text \<open>
  \<open>calculateStars(score, total)\<close>. JavaScript numbers are modelled as exact reals: the
  rounding of doubles is left out (the scores of this program are counts of answers, the
  total is 15). The division \<open>score / total\<close> by zero is written out: a positive score
  gives \<open>Infinity\<close> (every comparison holds, 5 stars), zero gives \<open>NaN\<close> and a
  negative score \<open>-Infinity\<close> (no comparison holds, 1 star).
\<close>

definition calculateStars :: "real \<Rightarrow> real \<Rightarrow> nat" where
  "calculateStars score totl =
     (if totl = 0 then (if 0 < score then 5 else 1)
      else
        let percentage = (score / totl) * 100 in
        if percentage \<ge> 90 then 5
        else if percentage \<ge> 80 then 4
        else if percentage \<ge> 70 then 3
        else if percentage \<ge> 60 then 2
        else 1)"

text \<open>
  \<open>questions[index]?.correct\<close>: the correct letter of the question at \<open>index\<close>, or
  \<open>undefined\<close> (\<open>None\<close>) when the array has no element there.
\<close>

definition correct_at :: "Question list \<Rightarrow> nat \<Rightarrow> string option" where
  "correct_at questions index =
     (if index < length questions then Some (letter_string (correct (questions ! index)))
      else None)"

text \<open>
  One \<open>answers.forEach((answer, index) => { if (questions[index]?.correct === answer)
  score++ })\<close> loop: the callback runs on every element with its index, in order.
\<close>

definition count_correct :: "string list \<Rightarrow> Question list \<Rightarrow> nat" where
  "count_correct answers questions =
     fold (\<lambda>(index, answer) score.
             if correct_at questions index = Some answer then score + 1 else score)
          (enumerate 0 answers) 0"

record Scores =
  practiceScore :: nat
  testScore :: nat
  totalScore :: nat
  stars :: nat

definition calculateScores ::
  "string list \<Rightarrow> string list \<Rightarrow> Question list \<Rightarrow> Question list \<Rightarrow> Scores" where
  "calculateScores practiceAnswers testAnswers practiceQuestions testQuestions =
     (let practiceScore = count_correct practiceAnswers practiceQuestions;
          testScore = count_correct testAnswers testQuestions;
          totalScore = practiceScore + testScore;
          stars = calculateStars (real totalScore) 15
      in \<lparr>practiceScore = practiceScore, testScore = testScore,
          totalScore = totalScore, stars = stars\<rparr>)"

section \<open>The content pipeline (server/ai-service.ts)\<close>

subsection \<open>JavaScript values and errors\<close>

text \<open>
  What \<open>JSON.parse\<close> returns: TypeScript's \<open>as ChapterContent\<close> is erased at run time,
  so lesson content and verdict fields are arbitrary JSON values. An object is its list of
  properties.
\<close>

datatype json =
    JNull
  | JBool bool
  | JNum real
  | JStr string
  | JArr "json list"
  | JObj "(string \<times> json) list"

text \<open>
  Thrown values: \<open>throw new Error(msg)\<close>, a \<open>TypeError\<close> of the engine, the
  \<open>SyntaxError\<close> of \<open>JSON.parse\<close>, and the rejection of an SDK call (network
  failure, HTTP error, timeout).
\<close>

datatype js_error = Error string | TypeError | SyntaxError | CapabilityError

text \<open>The result of awaiting an SDK call: it rejects or resolves with a response.\<close>

datatype 'a outcome = Threw | Returned 'a

text \<open>The three external capabilities, to log every invocation of a run.\<close>

datatype capability = Gemini | GPT | Claude

text \<open>A content block of an Anthropic response; only \<open>type === "text"\<close> blocks carry text.\<close>

datatype content_block = TextBlock string | OtherBlock

text \<open>
  What the code reads from outside: \<open>JSON.parse\<close> (\<open>None\<close> when it throws), and for
  each lazily constructed client whether \<open>getGenAI()\<close>, \<open>getOpenAI()\<close>,
  \<open>getAnthropic()\<close> can return it (the client exists already or an API key is in the
  environment).
\<close>

record runtime =
  JSON_parse :: "string \<Rightarrow> json option"
  genai_available :: bool
  openai_available :: bool
  anthropic_available :: bool

text \<open>
  The answers of the outside world to the invocations of one run, in the order the run
  can make them: generation, first verification, repair, second verification. Every
  awaited call is taken to settle, by a response or by a rejection.
  A Gemini response is its \<open>text\<close> (possibly undefined), an OpenAI response the message
  contents of its \<open>choices\<close> (possibly null), an Anthropic response its content blocks.
\<close>

record replies =
  gemini_reply :: "string option outcome"
  gpt_reply :: "string option list outcome"
  claude_reply :: "content_block list outcome"
  gpt_recheck_reply :: "string option list outcome"

text \<open>JavaScript truthiness of a value that may be \<open>undefined\<close> (\<open>None\<close>).\<close>

fun truthy :: "json option \<Rightarrow> bool" where
  "truthy None = False"
| "truthy (Some JNull) = False"
| "truthy (Some (JBool b)) = b"
| "truthy (Some (JNum n)) = (n \<noteq> 0)"
| "truthy (Some (JStr s)) = (s \<noteq> [])"
| "truthy (Some (JArr xs)) = True"
| "truthy (Some (JObj kvs)) = True"

text \<open>
  \<open>result.key\<close> for the keys \<open>status\<close> and \<open>issues\<close>: reading a property of
  \<open>null\<close> throws a TypeError; an object gives the property or \<open>undefined\<close>; numbers,
  booleans, strings and arrays have no such property.
\<close>

fun get_property :: "json \<Rightarrow> string \<Rightarrow> js_error + json option" where
  "get_property JNull key = Inl TypeError"
| "get_property (JObj kvs) key = Inr (map_of kvs key)"
| "get_property v key = Inr None"

text \<open>\<open>a || b\<close> on values.\<close>

definition or_default :: "json option \<Rightarrow> json \<Rightarrow> json" where
  "or_default a b = (if truthy a then the a else b)"

text \<open>\<open>s || d\<close> on a string that may be undefined or null.\<close>

definition string_or :: "string option \<Rightarrow> string \<Rightarrow> string" where
  "string_or s d = (case s of None \<Rightarrow> d | Some t \<Rightarrow> if t = [] then d else t)"

text \<open>
  \<open>text.match(/\{[\s\S]*\}/)\<close>: the match starts at the first \<open>{\<close> and, the star
  being greedy, ends at the last \<open>}\<close> after it; there is no match without both.
\<close>

definition json_match :: "string \<Rightarrow> string option" where
  "json_match text =
     (let from_brace = dropWhile (\<lambda>c. c \<noteq> CHR ''{'') text;
          upto_brace = rev (dropWhile (\<lambda>c. c \<noteq> CHR ''}'') (rev from_brace))
      in if from_brace = [] \<or> upto_brace = [] then None else Some upto_brace)"

subsection \<open>Clients\<close>

definition getGenAI :: "runtime \<Rightarrow> js_error + unit" where
  "getGenAI rt =
     (if genai_available rt then Inr ()
      else Inl (Error ''Missing Gemini API key. Please set GEMINI_API_KEY environment variable.''))"

definition getOpenAI :: "runtime \<Rightarrow> js_error + unit" where
  "getOpenAI rt =
     (if openai_available rt then Inr ()
      else Inl (Error ''Missing OpenAI API key. Please set OPENAI_API_KEY environment variable.''))"

definition getAnthropic :: "runtime \<Rightarrow> js_error + unit" where
  "getAnthropic rt =
     (if anthropic_available rt then Inr ()
      else Inl (Error ''Missing Anthropic API key. Please set ANTHROPIC_API_KEY environment variable.''))"

subsection \<open>Stage 1: generation\<close>

text \<open>
  \<open>dataUrl.match(/^data:([^;]+);base64,(.+)$/)\<close>: the media type is the non-empty text
  between \<open>data:\<close> and the first semicolon, which must start \<open>;base64,\<close>; the data is
  the non-empty rest, in which \<open>.\<close> matches no line terminator (line feed and carriage
  return; the separators U+2028 and U+2029 are not single characters here).
\<close>

definition extractBase64 :: "string \<Rightarrow> js_error + (string \<times> string)" where
  "extractBase64 dataUrl =
     (let rest = drop 5 dataUrl;
          mimeType = takeWhile (\<lambda>c. c \<noteq> CHR '';'') rest;
          tail = dropWhile (\<lambda>c. c \<noteq> CHR '';'') rest;
          data = drop 8 tail
      in if take 5 dataUrl = ''data:'' \<and> mimeType \<noteq> [] \<and> take 8 tail = '';base64,''
            \<and> data \<noteq> [] \<and> CHR 0x0A \<notin> set data \<and> CHR 0x0D \<notin> set data
         then Inr (data, mimeType)
         else Inl (Error ''Invalid data URL format''))"

text \<open>\<open>photos.map(extractBase64)\<close>: the first photo that does not match throws.\<close>

fun map_extractBase64 :: "string list \<Rightarrow> js_error + (string \<times> string) list" where
  "map_extractBase64 [] = Inr []"
| "map_extractBase64 (photo # photos) =
     (case extractBase64 photo of
        Inl e \<Rightarrow> Inl e
      | Inr part \<Rightarrow>
          (case map_extractBase64 photos of
             Inl e \<Rightarrow> Inl e
           | Inr parts \<Rightarrow> Inr (part # parts)))"

text \<open>
  \<open>generateWithGemini\<close>: the image parts are built before the \<open>try\<close>; the \<open>catch\<close>
  logs and rethrows. The result comes with the invocations made.
\<close>

definition generateWithGemini ::
  "runtime \<Rightarrow> string option outcome \<Rightarrow> string list \<Rightarrow> string \<Rightarrow> int
     \<Rightarrow> (js_error + json) \<times> capability list" where
  "generateWithGemini rt reply photos subject grade =
     (case map_extractBase64 photos of
        Inl e \<Rightarrow> (Inl e, [])
      | Inr imagesParts \<Rightarrow>
          (case getGenAI rt of
             Inl e \<Rightarrow> (Inl e, [])
           | Inr client \<Rightarrow>
               (case reply of
                  Threw \<Rightarrow> (Inl CapabilityError, [Gemini])
                | Returned response_text \<Rightarrow>
                    (case json_match (string_or response_text []) of
                       None \<Rightarrow> (Inl (Error ''No valid JSON found in Gemini response''), [Gemini])
                     | Some jsonMatch \<Rightarrow>
                         (case JSON_parse rt jsonMatch of
                            None \<Rightarrow> (Inl SyntaxError, [Gemini])
                          | Some content \<Rightarrow> (Inr content, [Gemini]))))))"

subsection \<open>Stage 2: verification\<close>

record verdict =
  status :: json
  issues :: json

text \<open>The body of the \<open>try\<close> block of \<open>verifyWithGPT\<close>.\<close>

definition verify_try ::
  "runtime \<Rightarrow> string option list outcome \<Rightarrow> (js_error + verdict) \<times> capability list" where
  "verify_try rt reply =
     (case getOpenAI rt of
        Inl e \<Rightarrow> (Inl e, [])
      | Inr client \<Rightarrow>
          (case reply of
             Threw \<Rightarrow> (Inl CapabilityError, [GPT])
           | Returned choices \<Rightarrow>
               (case choices of
                  [] \<Rightarrow> (Inl TypeError, [GPT])
                | message_content # others \<Rightarrow>
                    (case JSON_parse rt (string_or message_content ''{}'') of
                       None \<Rightarrow> (Inl SyntaxError, [GPT])
                     | Some result \<Rightarrow>
                         (case get_property result ''status'' of
                            Inl e \<Rightarrow> (Inl e, [GPT])
                          | Inr result_status \<Rightarrow>
                              (case get_property result ''issues'' of
                                 Inl e \<Rightarrow> (Inl e, [GPT])
                               | Inr result_issues \<Rightarrow>
                                   (Inr \<lparr>status = or_default result_status (JStr ''PASS''),
                                         issues = or_default result_issues (JArr [])\<rparr>,
                                    [GPT])))))))"

text \<open>
  \<open>verifyWithGPT\<close>: the prompt is built from \<open>JSON.stringify(content, null, 2)\<close>, which
  does not throw on a JSON value; the \<open>catch\<close> answers PASS with no issues.
\<close>

definition verifyWithGPT ::
  "runtime \<Rightarrow> string option list outcome \<Rightarrow> json \<Rightarrow> verdict \<times> capability list" where
  "verifyWithGPT rt reply content =
     (case verify_try rt reply of
        (Inr v, calls) \<Rightarrow> (v, calls)
      | (Inl error, calls) \<Rightarrow> (\<lparr>status = JStr ''PASS'', issues = JArr []\<rparr>, calls))"

subsection \<open>Stage 3: repair\<close>

text \<open>\<open>response.content.find((c) => c.type === "text")\<close>.\<close>

fun find_text :: "content_block list \<Rightarrow> string option" where
  "find_text [] = None"
| "find_text (TextBlock t # blocks) = Some t"
| "find_text (OtherBlock # blocks) = find_text blocks"

text \<open>The body of the \<open>try\<close> block of \<open>fixWithClaude\<close>.\<close>

definition fix_try ::
  "runtime \<Rightarrow> content_block list outcome \<Rightarrow> (js_error + json) \<times> capability list" where
  "fix_try rt reply =
     (case getAnthropic rt of
        Inl e \<Rightarrow> (Inl e, [])
      | Inr client \<Rightarrow>
          (case reply of
             Threw \<Rightarrow> (Inl CapabilityError, [Claude])
           | Returned blocks \<Rightarrow>
               (case find_text blocks of
                  None \<Rightarrow> (Inl (Error ''No text content in Claude response''), [Claude])
                | Some text \<Rightarrow>
                    (case json_match text of
                       None \<Rightarrow> (Inl (Error ''No valid JSON found in Claude response''), [Claude])
                     | Some jsonMatch \<Rightarrow>
                         (case JSON_parse rt jsonMatch of
                            None \<Rightarrow> (Inl SyntaxError, [Claude])
                          | Some fixed \<Rightarrow> (Inr fixed, [Claude]))))))"

text \<open>
  \<open>fixWithClaude\<close>: the prompt, with \<open>issues.join("\n")\<close>, is built before the
  \<open>try\<close>. Only an array has \<open>join\<close>; on any other value the call throws a TypeError
  that no \<open>catch\<close> of this function sees. Inside the \<open>try\<close>, the \<open>catch\<close> returns the
  original content.
\<close>

definition fixWithClaude ::
  "runtime \<Rightarrow> content_block list outcome \<Rightarrow> json \<Rightarrow> json
     \<Rightarrow> (js_error + json) \<times> capability list" where
  "fixWithClaude rt reply content issue_list =
     (case issue_list of
        JArr items \<Rightarrow>
          (case fix_try rt reply of
             (Inr fixed, calls) \<Rightarrow> (Inr fixed, calls)
           | (Inl error, calls) \<Rightarrow> (Inr content, calls))
      | other \<Rightarrow> (Inl TypeError, []))"

subsection \<open>The pipeline\<close>

definition processChapterWithAI ::
  "runtime \<Rightarrow> replies \<Rightarrow> string list \<Rightarrow> string \<Rightarrow> int
     \<Rightarrow> (js_error + json) \<times> capability list" where
  "processChapterWithAI rt world photos subject grade =
     (case generateWithGemini rt (gemini_reply world) photos subject grade of
        (Inl e, calls1) \<Rightarrow> (Inl e, calls1)
      | (Inr content, calls1) \<Rightarrow>
          (case verifyWithGPT rt (gpt_reply world) content of
             (verification, calls2) \<Rightarrow>
               if status verification = JStr ''PASS'' then (Inr content, calls1 @ calls2)
               else
                 (case fixWithClaude rt (claude_reply world) content (issues verification) of
                    (Inl e, calls3) \<Rightarrow> (Inl e, calls1 @ calls2 @ calls3)
                  | (Inr fixed, calls3) \<Rightarrow>
                      (case verifyWithGPT rt (gpt_recheck_reply world) fixed of
                         (recheck, calls4) \<Rightarrow>
                           (Inr fixed, calls1 @ calls2 @ calls3 @ calls4)))))"

section \<open>Storage (shared/schema.ts, server/storage.ts)\<close>

text \<open>
  The rows of the tables \<open>children\<close>, \<open>chapters\<close> and \<open>chapter_results\<close>, each field
  prefixed with its table. Columns that the routes below never read are left out
  (\<open>avatarUrl\<close>, \<open>streak\<close> and \<open>createdAt\<close> of a child; the scores, time and answers
  of a result). A nullable column is an \<open>option\<close>; times are numbers.
\<close>

record Child =
  child_id :: string
  child_parentId :: string
  child_name :: string
  child_age :: int
  child_totalStars :: "int option"

record Chapter =
  chapter_id :: string
  chapter_childId :: string
  chapter_parentId :: string
  chapter_title :: string
  chapter_subject :: string
  chapter_grade :: int
  chapter_content :: "json option"
  chapter_status :: "string option"
  chapter_createdAt :: nat
  chapter_completedAt :: "nat option"

record ChapterResult =
  result_id :: string
  result_chapterId :: string
  result_childId :: string
  result_totalScore :: "int option"
  result_stars :: "int option"


text \<open>
  A write to the table \<open>chapters\<close>: the \<open>insert\<close> of \<open>createChapter\<close>, the
  \<open>update\<close> of \<open>updateChapterStatus\<close> (id, status) and the one of
  \<open>updateChapterContent\<close> (id, content).
\<close>

datatype chapter_write =
    InsertRow Chapter
  | UpdateStatus string string
  | UpdateContent string json

text \<open>
  The database: each table is the list of its rows. \<open>chapter_journal\<close> is a history of
  the writes to \<open>chapters\<close>, oldest first; no code reads it, it is there to count them.
\<close>

record Storage =
  children :: "Child list"
  chapters :: "Chapter list"
  chapterResults :: "ChapterResult list"
  chapter_journal :: "chapter_write list"

text \<open>\<open>const [row] = await db.select().from(table).where(eq(column, value))\<close>.\<close>

definition getChildById :: "Storage \<Rightarrow> string \<Rightarrow> Child option" where
  "getChildById st cid = find (\<lambda>child. child_id child = cid) (children st)"

definition getChapterById :: "Storage \<Rightarrow> string \<Rightarrow> Chapter option" where
  "getChapterById st cid = find (\<lambda>chapter. chapter_id chapter = cid) (chapters st)"

definition getResultById :: "Storage \<Rightarrow> string \<Rightarrow> ChapterResult option" where
  "getResultById st rid = find (\<lambda>r. result_id r = rid) (chapterResults st)"

definition getResultByChapter :: "Storage \<Rightarrow> string \<Rightarrow> ChapterResult option" where
  "getResultByChapter st chapterId =
     find (\<lambda>r. result_chapterId r = chapterId) (chapterResults st)"

text \<open>\<open>where(eq(chapters.childId, childId)).orderBy(desc(chapters.createdAt))\<close>.\<close>

definition getChaptersByChild :: "Storage \<Rightarrow> string \<Rightarrow> Chapter list" where
  "getChaptersByChild st childId =
     rev (sort_key chapter_createdAt
            (filter (\<lambda>chapter. chapter_childId chapter = childId) (chapters st)))"

definition getResultsByChild :: "Storage \<Rightarrow> string \<Rightarrow> ChapterResult list" where
  "getResultsByChild st childId =
     filter (\<lambda>r. result_childId r = childId) (chapterResults st)"




section \<open>Routes (server/routes.ts)\<close>

text \<open>
  The fields that the middleware \<open>requireChildAccess\<close> leaves on the request. The
  middleware itself (server/auth.ts) is not among the sources: a handler is modelled on
  every value of the two fields. A child token is minted from both ids
  (\<open>setChildCookie(res, childId, parentId)\<close>), a parent token from the parent's id.
\<close>

record ChildRequest =
  authenticatedChildId :: "string option"
  authenticatedParentId :: "string option"


text \<open>
  A response: \<open>res.json(body)\<close>, with status 200, or \<open>res.status(code).json({ error })\<close>.
  The database is total here, so the \<open>catch\<close> of a handler, which answers 500, is not
  reached.
\<close>

datatype 'a response = Json 'a | Status nat




text \<open>
  \<open>GET /api/children/:id\<close>, \<open>GET /api/children/:childId/chapters\<close> and
  \<open>GET /api/children/:childId/results\<close>: the child id is
  \<open>req.authenticatedChildId || req.params.id\<close> (or \<open>req.params.childId\<close>).
\<close>

definition get_children_id :: "Storage \<Rightarrow> ChildRequest \<Rightarrow> string \<Rightarrow> Child response" where
  "get_children_id st req param_id =
     (let childId = string_or (authenticatedChildId req) param_id
      in case getChildById st childId of
           None \<Rightarrow> Status 404
         | Some child \<Rightarrow> Json child)"

definition get_children_childId_chapters ::
  "Storage \<Rightarrow> ChildRequest \<Rightarrow> string \<Rightarrow> Chapter list response" where
  "get_children_childId_chapters st req param_childId =
     (let childId = string_or (authenticatedChildId req) param_childId
      in Json (getChaptersByChild st childId))"

definition get_children_childId_results ::
  "Storage \<Rightarrow> ChildRequest \<Rightarrow> string \<Rightarrow> ChapterResult list response" where
  "get_children_childId_results st req param_childId =
     (let childId = string_or (authenticatedChildId req) param_childId
      in Json (getResultsByChild st childId))"

text \<open>
  \<open>POST /api/child/login\<close>. The request: \<open>req.body.childId\<close> and
  \<open>req.cookies?.parentToken\<close>. The response: its status, the child cookie set by
  \<open>setChildCookie(res, childId, parentId)\<close> if any, and the child's id and name in the
  body of a success. \<open>verifyParentToken\<close> (server/auth.ts, not among the sources) is a
  parameter: it gives the \<open>userId\<close> of a token it accepts, and \<open>None\<close> where it throws.
  The handler reads no other field of the request, whatever the request holds besides.
\<close>

record LoginRequest =
  body_childId :: "string option"
  cookie_parentToken :: "string option"

record LoginResponse =
  login_status :: nat
  login_childCookie :: "(string \<times> string) option"
  login_child :: "(string \<times> string) option"

definition post_child_login ::
  "(string \<Rightarrow> string option) \<Rightarrow> Storage \<Rightarrow> 'a LoginRequest_scheme \<Rightarrow> LoginResponse" where
  "post_child_login verifyParentToken st req =
     (let failure = (\<lambda>code. \<lparr>login_status = code, login_childCookie = None, login_child = None\<rparr>)
      in case body_childId req of
           None \<Rightarrow> failure 400
         | Some childId \<Rightarrow>
             if childId = [] then failure 400
             else
               (case cookie_parentToken req of
                  None \<Rightarrow> failure 401
                | Some parentToken \<Rightarrow>
                    if parentToken = [] then failure 401
                    else
                      (case verifyParentToken parentToken of
                         None \<Rightarrow> failure 401
                       | Some parentId \<Rightarrow>
                           (case getChildById st childId of
                              None \<Rightarrow> failure 403
                            | Some child \<Rightarrow>
                                if child_parentId child \<noteq> parentId then failure 403
                                else \<lparr>login_status = 200,
                                      login_childCookie = Some (childId, parentId),
                                      login_child = Some (child_id child, child_name child)\<rparr>))))"





section \<open>Example inputs\<close>

text \<open>
  \<open>JSON.parse\<close> on the texts of the examples; the example runtime has all three clients.
\<close>

definition example_parse :: "string \<Rightarrow> json option" where
  \<open>example_parse s =
     (if s = ''{"topic":"Fractions"}'' then Some (JObj [(''topic'', JStr ''Fractions'')])
      else if s = ''{"topic":"Fractions, repaired"}''
        then Some (JObj [(''topic'', JStr ''Fractions, repaired'')])
      else if s = ''{"issues":["Question 2 is ambiguous"]}''
        then Some (JObj [(''issues'', JArr [JStr ''Question 2 is ambiguous''])])
      else if s = ''{"status":"FAIL","issues":["Question 2 is ambiguous"]}''
        then Some (JObj [(''status'', JStr ''FAIL''),
                         (''issues'', JArr [JStr ''Question 2 is ambiguous''])])
      else if s = ''{"status":"FAIL","issues":"Question 3 has two correct answers"}''
        then Some (JObj [(''status'', JStr ''FAIL''),
                         (''issues'', JStr ''Question 3 has two correct answers'')])
      else if s = ''{"status":"PASS","issues":[]}''
        then Some (JObj [(''status'', JStr ''PASS''), (''issues'', JArr [])])
      else None)\<close>

definition example_runtime :: runtime where
  "example_runtime =
     \<lparr>JSON_parse = example_parse, genai_available = True, openai_available = True,
      anthropic_available = True\<rparr>"

definition example_photos :: "string list" where
  "example_photos = [''data:image/png;base64,iVBORw0KGgo='']"

text \<open>
  A run whose generation succeeds, whose verifier finds an issue twice and whose repair
  capability fails.
\<close>

definition example_replies :: replies where
  \<open>example_replies =
     \<lparr>gemini_reply = Returned (Some ''{"topic":"Fractions"}''),
      gpt_reply = Returned [Some ''{"status":"FAIL","issues":["Question 2 is ambiguous"]}''],
      claude_reply = Threw,
      gpt_recheck_reply = Returned [Some ''{"status":"FAIL","issues":["Question 2 is ambiguous"]}'']\<rparr>\<close>

text \<open>
  A run whose verifier answers FAIL and gives its issues as one text, not as a list.
\<close>

definition example_replies_issue_text :: replies where
  \<open>example_replies_issue_text =
     \<lparr>gemini_reply = Returned (Some ''{"topic":"Fractions"}''),
      gpt_reply = Returned
        [Some ''{"status":"FAIL","issues":"Question 3 has two correct answers"}''],
      claude_reply = Returned [TextBlock ''{"topic":"Fractions, repaired"}''],
      gpt_recheck_reply = Returned [Some ''{"status":"PASS","issues":[]}'']\<rparr>\<close>

text \<open>
  A database with two families. Parent 2 has created the second chapter for the child of
  parent 1: \<open>POST /api/chapters\<close> compares only the \<open>parentId\<close> of its body with the
  session.
\<close>

definition example_child_1 :: Child where
  "example_child_1 =
     \<lparr>child_id = ''child-1'', child_parentId = ''parent-1'', child_name = ''Sara'',
      child_age = 8, child_totalStars = Some 4\<rparr>"

definition example_child_2 :: Child where
  "example_child_2 =
     \<lparr>child_id = ''child-2'', child_parentId = ''parent-2'', child_name = ''Omar'',
      child_age = 10, child_totalStars = Some 0\<rparr>"

definition example_chapter_1 :: Chapter where
  "example_chapter_1 =
     \<lparr>chapter_id = ''chapter-1'', chapter_childId = ''child-1'',
      chapter_parentId = ''parent-1'', chapter_title = ''Fractions'',
      chapter_subject = ''math'', chapter_grade = 3,
      chapter_content = Some (JObj [(''topic'', JStr ''Fractions'')]),
      chapter_status = Some ''completed'', chapter_createdAt = 10,
      chapter_completedAt = Some 20\<rparr>"

definition example_chapter_2 :: Chapter where
  "example_chapter_2 =
     \<lparr>chapter_id = ''chapter-2'', chapter_childId = ''child-1'',
      chapter_parentId = ''parent-2'', chapter_title = ''Plants'',
      chapter_subject = ''science'', chapter_grade = 3,
      chapter_content = Some (JObj [(''topic'', JStr ''Plants'')]),
      chapter_status = Some ''ready'', chapter_createdAt = 30,
      chapter_completedAt = None\<rparr>"

definition example_result_1 :: ChapterResult where
  "example_result_1 =
     \<lparr>result_id = ''result-1'', result_chapterId = ''chapter-1'',
      result_childId = ''child-1'', result_totalScore = Some 12, result_stars = Some 4\<rparr>"

definition example_storage :: Storage where
  "example_storage =
     \<lparr>children = [example_child_1, example_child_2],
      chapters = [example_chapter_1, example_chapter_2],
      chapterResults = [example_result_1],
      chapter_journal = []\<rparr>"

text \<open>Token verification on the examples: one valid parent token, of parent 1.\<close>

definition example_verifyParentToken :: "string \<Rightarrow> string option" where
  "example_verifyParentToken token =
     (if token = ''token-of-parent-1'' then Some ''parent-1'' else None)"


section \<open>Properties of the scoring functions\<close>

lemma fold_count_correct:
  "fold (\<lambda>(index, answer) score.
           if correct_at questions index = Some answer then score + 1 else score)
        (enumerate n answers) acc
   = acc + length (filter (\<lambda>(index, answer). correct_at questions index = Some answer)
                          (enumerate n answers))"
  by (induction answers arbitrary: n acc) auto

lemma count_correct_card:
  "count_correct answers questions =
   card {i. i < length answers \<and> i < length questions \<and>
            answers ! i = letter_string (correct (questions ! i))}"
proof -
  let ?hit = "\<lambda>(index, answer). correct_at questions index = Some answer"
  have "count_correct answers questions = length (filter ?hit (enumerate 0 answers))"
    unfolding count_correct_def by (simp add: fold_count_correct)
  also have "\<dots> = card {i. i < length (enumerate 0 answers) \<and> ?hit (enumerate 0 answers ! i)}"
    by (rule length_filter_conv_card)
  also have "{i. i < length (enumerate 0 answers) \<and> ?hit (enumerate 0 answers ! i)}
    = {i. i < length answers \<and> i < length questions \<and>
          answers ! i = letter_string (correct (questions ! i))}"
    by (auto simp: nth_enumerate_eq correct_at_def split: if_splits)
  finally show ?thesis .
qed

lemma letter_string_range: "letter_string l \<in> {''A'', ''B'', ''C'', ''D''}"
  by (cases l) simp_all

text \<open>
  C7. For answer and question lists of any lengths, \<open>calculateScores\<close> counts the answer at
  index \<open>i\<close> exactly when a question exists at index \<open>i\<close> and the answer is, as a string,
  that question's correct letter, one of A, B, C, D; \<open>practiceScore\<close> and \<open>testScore\<close>
  are those counts and \<open>totalScore\<close> is their sum. The function is total: it has no
  failing branch for answer lists longer or shorter than the question lists.
\<close>

theorem calculateScores_counts:
  "practiceScore (calculateScores pa ta pq tq) =
     card {i. i < length pa \<and> i < length pq \<and> pa ! i = letter_string (correct (pq ! i))}
   \<and> testScore (calculateScores pa ta pq tq) =
     card {i. i < length ta \<and> i < length tq \<and> ta ! i = letter_string (correct (tq ! i))}
   \<and> totalScore (calculateScores pa ta pq tq) =
     practiceScore (calculateScores pa ta pq tq) + testScore (calculateScores pa ta pq tq)
   \<and> letter_string (correct q) \<in> {''A'', ''B'', ''C'', ''D''}"
  by (simp add: calculateScores_def Let_def count_correct_card letter_string_range
           del: insert_iff)






section \<open>Properties of the pipeline\<close>

lemmas example_defs = example_runtime_def example_parse_def example_photos_def

lemmas stage_defs =
  generateWithGemini_def getGenAI_def verifyWithGPT_def verify_try_def getOpenAI_def
  fixWithClaude_def fix_try_def getAnthropic_def string_or_def or_default_def
  json_match_def extractBase64_def

subsection \<open>Invocations and results of the stages\<close>

lemma generate_calls:
  "snd (generateWithGemini rt reply photos subject grade) =
     (case map_extractBase64 photos of
        Inl e \<Rightarrow> []
      | Inr parts \<Rightarrow> if genai_available rt then [Gemini] else [])"
  by (simp add: generateWithGemini_def getGenAI_def
           split: sum.splits outcome.splits option.splits)

lemma verify_calls:
  "snd (verifyWithGPT rt reply content) = (if openai_available rt then [GPT] else [])"
  by (simp add: verifyWithGPT_def verify_try_def getOpenAI_def
           split: sum.splits outcome.splits option.splits list.splits prod.splits)

lemma fix_try_calls:
  "snd (fix_try rt reply) = (if anthropic_available rt then [Claude] else [])"
  by (simp add: fix_try_def getAnthropic_def
           split: sum.splits outcome.splits option.splits)

lemma fix_calls:
  "snd (fixWithClaude rt reply content issue_list) =
     (case issue_list of
        JArr items \<Rightarrow> if anthropic_available rt then [Claude] else []
      | other \<Rightarrow> [])"
  using fix_try_calls [of rt reply]
  by (cases "fix_try rt reply")
     (simp add: fixWithClaude_def split: json.splits sum.splits)

lemma fix_array_returns:
  "fst (fixWithClaude rt reply content (JArr items)) =
     (case fst (fix_try rt reply) of Inl e \<Rightarrow> Inr content | Inr fixed \<Rightarrow> Inr fixed)"
  by (cases "fix_try rt reply") (simp add: fixWithClaude_def split: sum.splits)

lemma pipeline_unfold:
  "processChapterWithAI rt world photos subject grade =
     (case fst (generateWithGemini rt (gemini_reply world) photos subject grade) of
        Inl e \<Rightarrow> (Inl e, snd (generateWithGemini rt (gemini_reply world) photos subject grade))
      | Inr content \<Rightarrow>
          if status (fst (verifyWithGPT rt (gpt_reply world) content)) = JStr ''PASS''
          then (Inr content,
                snd (generateWithGemini rt (gemini_reply world) photos subject grade)
                @ snd (verifyWithGPT rt (gpt_reply world) content))
          else
            (case fst (fixWithClaude rt (claude_reply world) content
                         (issues (fst (verifyWithGPT rt (gpt_reply world) content)))) of
               Inl e \<Rightarrow>
                 (Inl e,
                  snd (generateWithGemini rt (gemini_reply world) photos subject grade)
                  @ snd (verifyWithGPT rt (gpt_reply world) content)
                  @ snd (fixWithClaude rt (claude_reply world) content
                           (issues (fst (verifyWithGPT rt (gpt_reply world) content)))))
             | Inr fixed \<Rightarrow>
                 (Inr fixed,
                  snd (generateWithGemini rt (gemini_reply world) photos subject grade)
                  @ snd (verifyWithGPT rt (gpt_reply world) content)
                  @ snd (fixWithClaude rt (claude_reply world) content
                           (issues (fst (verifyWithGPT rt (gpt_reply world) content))))
                  @ snd (verifyWithGPT rt (gpt_recheck_reply world) fixed))))"
  unfolding processChapterWithAI_def
  by (auto split: prod.splits sum.splits)

lemma pipeline_calls_le4:
  "length (snd (processChapterWithAI rt world photos subject grade)) \<le> 4"
  unfolding pipeline_unfold
  by (simp add: generate_calls verify_calls fix_calls split: sum.splits json.splits)

subsection \<open>Verification fails open\<close>

text \<open>
  C3, as the code has it. When the verifier cannot be reached or used (no client, the call
  rejects or times out, no choice in the response, text that \<open>JSON.parse\<close> rejects, the
  value \<open>null\<close>), \<open>verifyWithGPT\<close> returns the verdict PASS with no issues. When the
  parsed value has no \<open>status\<close>, the status is PASS and the issues are the value's own
  \<open>issues\<close> where truthy, the empty list otherwise. On a PASS the pipeline returns the
  content it verified.
\<close>

theorem verifyWithGPT_fail_open:
  "(\<not> openai_available rt \<or> reply = Threw \<or> reply = Returned []
      \<or> (reply = Returned (message_content # others) \<and>
          (JSON_parse rt (string_or message_content ''{}'') = None
           \<or> JSON_parse rt (string_or message_content ''{}'') = Some JNull))
     \<longrightarrow> fst (verifyWithGPT rt reply content) = \<lparr>status = JStr ''PASS'', issues = JArr []\<rparr>)
   \<and> (openai_available rt \<and> reply = Returned (message_content # others)
        \<and> JSON_parse rt (string_or message_content ''{}'') = Some result
        \<and> get_property result ''status'' = Inr None
        \<and> get_property result ''issues'' = Inr result_issues
     \<longrightarrow> fst (verifyWithGPT rt reply content) =
           \<lparr>status = JStr ''PASS'', issues = or_default result_issues (JArr [])\<rparr>)
   \<and> (fst (generateWithGemini rt (gemini_reply world) photos subject grade) = Inr content
        \<and> status (fst (verifyWithGPT rt (gpt_reply world) content)) = JStr ''PASS''
     \<longrightarrow> fst (processChapterWithAI rt world photos subject grade) = Inr content)"
proof (intro conjI impI)
  assume "\<not> openai_available rt \<or> reply = Threw \<or> reply = Returned []
      \<or> (reply = Returned (message_content # others) \<and>
          (JSON_parse rt (string_or message_content ''{}'') = None
           \<or> JSON_parse rt (string_or message_content ''{}'') = Some JNull))"
  then show "fst (verifyWithGPT rt reply content) = \<lparr>status = JStr ''PASS'', issues = JArr []\<rparr>"
    by (auto simp add: verifyWithGPT_def verify_try_def getOpenAI_def
             split: outcome.splits list.splits option.splits sum.splits)
next
  assume "openai_available rt \<and> reply = Returned (message_content # others)
        \<and> JSON_parse rt (string_or message_content ''{}'') = Some result
        \<and> get_property result ''status'' = Inr None
        \<and> get_property result ''issues'' = Inr result_issues"
  then show "fst (verifyWithGPT rt reply content) =
           \<lparr>status = JStr ''PASS'', issues = or_default result_issues (JArr [])\<rparr>"
    by (simp add: verifyWithGPT_def verify_try_def getOpenAI_def or_default_def)
next
  assume "fst (generateWithGemini rt (gemini_reply world) photos subject grade) = Inr content
        \<and> status (fst (verifyWithGPT rt (gpt_reply world) content)) = JStr ''PASS''"
  then show "fst (processChapterWithAI rt world photos subject grade) = Inr content"
    by (simp add: pipeline_unfold)
qed

theorem verifyWithGPT_fail_open_witness:
  \<open>fst (verifyWithGPT example_runtime Threw (JObj []))
     = \<lparr>status = JStr ''PASS'', issues = JArr []\<rparr>
   \<and> fst (verifyWithGPT example_runtime
            (Returned [Some ''{"issues":["Question 2 is ambiguous"]}'']) (JObj []))
     = \<lparr>status = JStr ''PASS'', issues = JArr [JStr ''Question 2 is ambiguous'']\<rparr>
   \<and> fst (processChapterWithAI example_runtime (example_replies\<lparr>gpt_reply := Threw\<rparr>)
            example_photos ''math'' 3)
     = Inr (JObj [(''topic'', JStr ''Fractions'')])\<close>
proof -
  have a: "fst (verifyWithGPT example_runtime Threw (JObj []))
     = \<lparr>status = JStr ''PASS'', issues = JArr []\<rparr>"
    using verifyWithGPT_fail_open [where rt = example_runtime and reply = Threw] by simp
  have b: \<open>fst (verifyWithGPT example_runtime
            (Returned [Some ''{"issues":["Question 2 is ambiguous"]}'']) (JObj []))
     = \<lparr>status = JStr ''PASS'', issues = JArr [JStr ''Question 2 is ambiguous'']\<rparr>\<close>
    using verifyWithGPT_fail_open
      [where rt = example_runtime
         and reply = \<open>Returned [Some ''{"issues":["Question 2 is ambiguous"]}'']\<close>
         and message_content = \<open>Some ''{"issues":["Question 2 is ambiguous"]}''\<close>
         and others = "[]"
         and result = \<open>JObj [(''issues'', JArr [JStr ''Question 2 is ambiguous''])]\<close>
         and result_issues = \<open>Some (JArr [JStr ''Question 2 is ambiguous''])\<close>
         and content = "JObj []"]
    by (simp add: example_defs string_or_def or_default_def)
  have g: \<open>fst (generateWithGemini example_runtime
                 (gemini_reply (example_replies\<lparr>gpt_reply := Threw\<rparr>)) example_photos ''math'' 3)
            = Inr (JObj [(''topic'', JStr ''Fractions'')])\<close>
    by (simp add: example_defs example_replies_def stage_defs)
  have v: \<open>status (fst (verifyWithGPT example_runtime
                 (gpt_reply (example_replies\<lparr>gpt_reply := Threw\<rparr>))
                 (JObj [(''topic'', JStr ''Fractions'')]))) = JStr ''PASS''\<close>
    by (simp add: example_defs example_replies_def stage_defs)
  have c: \<open>fst (processChapterWithAI example_runtime (example_replies\<lparr>gpt_reply := Threw\<rparr>)
            example_photos ''math'' 3)
     = Inr (JObj [(''topic'', JStr ''Fractions'')])\<close>
    using verifyWithGPT_fail_open
      [where rt = example_runtime and world = \<open>example_replies\<lparr>gpt_reply := Threw\<rparr>\<close>
         and photos = example_photos and subject = \<open>''math''\<close> and grade = 3
         and content = \<open>JObj [(''topic'', JStr ''Fractions'')]\<close>] g v
    by simp
  from a b c show ?thesis by simp
qed

text \<open>
  C3 as stated fails: an object with issues and no status is answered with PASS and
  those issues, not with the empty list.
\<close>

theorem verify_missing_status_counterexample:
  \<open>JSON_parse example_runtime ''{"issues":["Question 2 is ambiguous"]}''
     = Some (JObj [(''issues'', JArr [JStr ''Question 2 is ambiguous''])])
   \<and> get_property (JObj [(''issues'', JArr [JStr ''Question 2 is ambiguous''])]) ''status''
     = Inr None
   \<and> fst (verifyWithGPT example_runtime
            (Returned [Some ''{"issues":["Question 2 is ambiguous"]}'']) (JObj []))
     = \<lparr>status = JStr ''PASS'', issues = JArr [JStr ''Question 2 is ambiguous'']\<rparr>
   \<and> fst (verifyWithGPT example_runtime
            (Returned [Some ''{"issues":["Question 2 is ambiguous"]}'']) (JObj []))
     \<noteq> \<lparr>status = JStr ''PASS'', issues = JArr []\<rparr>\<close>
  by (simp add: verifyWithGPT_def verify_try_def getOpenAI_def string_or_def or_default_def
                example_defs)

subsection \<open>Repair keeps the candidate\<close>



subsection \<open>A verdict whose issues are not a list\<close>

text \<open>
  With a list of issues the run repairs once, verifies once more and returns what
  \<open>fixWithClaude\<close> returned, whatever the second verdict.
\<close>

lemma generate_returns_calls:
  "fst (generateWithGemini rt reply photos subject grade) = Inr candidate \<Longrightarrow>
   snd (generateWithGemini rt reply photos subject grade) = [Gemini]"
  by (auto simp add: generateWithGemini_def getGenAI_def
           split: sum.splits outcome.splits option.splits if_splits)

lemma pipeline_repairs_once:
  assumes "fst (generateWithGemini rt (gemini_reply world) photos subject grade) = Inr candidate"
      and "status (fst (verifyWithGPT rt (gpt_reply world) candidate)) \<noteq> JStr ''PASS''"
      and "issues (fst (verifyWithGPT rt (gpt_reply world) candidate)) = JArr found"
  shows "fst (processChapterWithAI rt world photos subject grade)
           = fst (fixWithClaude rt (claude_reply world) candidate (JArr found))
         \<and> length (filter (\<lambda>c. c = Claude)
                     (snd (processChapterWithAI rt world photos subject grade)))
           = (if anthropic_available rt then 1 else 0)
         \<and> length (filter (\<lambda>c. c = GPT)
                     (snd (processChapterWithAI rt world photos subject grade)))
           = (if openai_available rt then 2 else 0)"
  using assms generate_returns_calls [OF assms(1)]
  by (simp add: pipeline_unfold verify_calls fix_calls fix_array_returns split: sum.splits)

text \<open>
  C5 fails on the code. The verifier answers FAIL with its issues as one text;
  \<open>issues.join\<close> in \<open>fixWithClaude\<close> throws outside the \<open>try\<close>: the run ends with
  a TypeError after two invocations, the repair capability is never invoked and no content
  is returned, though generation succeeded.
\<close>

theorem pipeline_issue_text_throws:
  \<open>processChapterWithAI example_runtime example_replies_issue_text example_photos ''math'' 3
     = (Inl TypeError, [Gemini, GPT])\<close>
  by (simp add: processChapterWithAI_def example_defs example_replies_issue_text_def stage_defs)

subsection \<open>The number of invocations\<close>

text \<open>
  C6, as the code has it. A run makes at most four invocations. It makes none when a photo
  is not a base64 data URL or there is no Gemini client. With valid photos and all three
  clients, it makes one when generation fails, two when the first verification passes,
  and four (generate, verify, repair, verify) when the first verification does not pass
  and gives a list of issues.
\<close>

theorem pipeline_call_bound:
  "length (snd (processChapterWithAI rt world photos subject grade)) \<le> 4
   \<and> (map_extractBase64 photos = Inl e \<or> \<not> genai_available rt
        \<longrightarrow> snd (processChapterWithAI rt world photos subject grade) = [])
   \<and> (map_extractBase64 photos = Inr parts \<and> genai_available rt \<and> openai_available rt
        \<and> anthropic_available rt
        \<longrightarrow>
          (fst (generateWithGemini rt (gemini_reply world) photos subject grade) = Inl failure
             \<longrightarrow> snd (processChapterWithAI rt world photos subject grade) = [Gemini])
        \<and> (fst (generateWithGemini rt (gemini_reply world) photos subject grade) = Inr content
             \<and> status (fst (verifyWithGPT rt (gpt_reply world) content)) = JStr ''PASS''
             \<longrightarrow> snd (processChapterWithAI rt world photos subject grade) = [Gemini, GPT])
        \<and> (fst (generateWithGemini rt (gemini_reply world) photos subject grade) = Inr content
             \<and> status (fst (verifyWithGPT rt (gpt_reply world) content)) \<noteq> JStr ''PASS''
             \<and> issues (fst (verifyWithGPT rt (gpt_reply world) content)) = JArr found
             \<longrightarrow> snd (processChapterWithAI rt world photos subject grade)
                   = [Gemini, GPT, Claude, GPT]))"
proof (intro conjI impI)
  show "length (snd (processChapterWithAI rt world photos subject grade)) \<le> 4"
    by (rule pipeline_calls_le4)
next
  assume "map_extractBase64 photos = Inl e \<or> \<not> genai_available rt"
  then have "snd (generateWithGemini rt (gemini_reply world) photos subject grade) = []"
    and "\<exists>e'. fst (generateWithGemini rt (gemini_reply world) photos subject grade) = Inl e'"
    by (auto simp add: generateWithGemini_def getGenAI_def split: sum.splits)
  then show "snd (processChapterWithAI rt world photos subject grade) = []"
    by (auto simp add: pipeline_unfold)
next
  assume a: "map_extractBase64 photos = Inr parts \<and> genai_available rt \<and> openai_available rt
        \<and> anthropic_available rt"
    and "fst (generateWithGemini rt (gemini_reply world) photos subject grade) = Inl failure"
  then show "snd (processChapterWithAI rt world photos subject grade) = [Gemini]"
    by (simp add: pipeline_unfold generate_calls)
next
  assume a: "map_extractBase64 photos = Inr parts \<and> genai_available rt \<and> openai_available rt
        \<and> anthropic_available rt"
    and "fst (generateWithGemini rt (gemini_reply world) photos subject grade) = Inr content
             \<and> status (fst (verifyWithGPT rt (gpt_reply world) content)) = JStr ''PASS''"
  then show "snd (processChapterWithAI rt world photos subject grade) = [Gemini, GPT]"
    by (simp add: pipeline_unfold generate_calls verify_calls)
next
  assume a: "map_extractBase64 photos = Inr parts \<and> genai_available rt \<and> openai_available rt
        \<and> anthropic_available rt"
    and "fst (generateWithGemini rt (gemini_reply world) photos subject grade) = Inr content
             \<and> status (fst (verifyWithGPT rt (gpt_reply world) content)) \<noteq> JStr ''PASS''
             \<and> issues (fst (verifyWithGPT rt (gpt_reply world) content)) = JArr found"
  then show "snd (processChapterWithAI rt world photos subject grade)
                   = [Gemini, GPT, Claude, GPT]"
    by (simp add: pipeline_unfold generate_calls verify_calls fix_calls fix_array_returns
             split: sum.splits)
qed

theorem pipeline_call_bound_witness:
  \<open>snd (processChapterWithAI example_runtime example_replies [''iVBORw0KGgo=''] ''math'' 3) = []
   \<and> snd (processChapterWithAI example_runtime
            (example_replies\<lparr>gemini_reply := Threw\<rparr>) example_photos ''math'' 3) = [Gemini]
   \<and> snd (processChapterWithAI example_runtime
            (example_replies\<lparr>gpt_reply := Threw\<rparr>) example_photos ''math'' 3) = [Gemini, GPT]
   \<and> snd (processChapterWithAI example_runtime example_replies example_photos ''math'' 3)
       = [Gemini, GPT, Claude, GPT]\<close>
proof -
  have avail: "genai_available example_runtime \<and> openai_available example_runtime
      \<and> anthropic_available example_runtime"
    by (simp add: example_defs)
  have photos_ok: \<open>map_extractBase64 example_photos
      = Inr [(''iVBORw0KGgo='', ''image/png'')]\<close>
    by (simp add: example_defs stage_defs)
  have photos_bad: \<open>map_extractBase64 [''iVBORw0KGgo='']
      = Inl (Error ''Invalid data URL format'')\<close>
    by (simp add: stage_defs)
  have a: \<open>snd (processChapterWithAI example_runtime example_replies
                  [''iVBORw0KGgo=''] ''math'' 3) = []\<close>
    using pipeline_call_bound
      [where rt = example_runtime and world = example_replies
         and photos = \<open>[''iVBORw0KGgo='']\<close> and e = \<open>Error ''Invalid data URL format''\<close>]
      photos_bad
    by simp
  have g_fail: \<open>fst (generateWithGemini example_runtime
        (gemini_reply (example_replies\<lparr>gemini_reply := Threw\<rparr>)) example_photos ''math'' 3)
      = Inl CapabilityError\<close>
    by (simp add: example_defs stage_defs)
  have b: \<open>snd (processChapterWithAI example_runtime
            (example_replies\<lparr>gemini_reply := Threw\<rparr>) example_photos ''math'' 3) = [Gemini]\<close>
    using pipeline_call_bound
      [where rt = example_runtime and world = \<open>example_replies\<lparr>gemini_reply := Threw\<rparr>\<close>
         and photos = example_photos and subject = \<open>''math''\<close> and grade = 3
         and parts = \<open>[(''iVBORw0KGgo='', ''image/png'')]\<close>
         and failure = CapabilityError]
      avail photos_ok g_fail
    by simp
  have g_ok: \<open>fst (generateWithGemini example_runtime (gemini_reply w) example_photos ''math'' 3)
      = Inr (JObj [(''topic'', JStr ''Fractions'')])\<close>
    if \<open>gemini_reply w = Returned (Some ''{"topic":"Fractions"}'')\<close> for w :: replies
    using that by (simp add: example_defs stage_defs)
  have v_pass: \<open>status (fst (verifyWithGPT example_runtime
        (gpt_reply (example_replies\<lparr>gpt_reply := Threw\<rparr>))
        (JObj [(''topic'', JStr ''Fractions'')]))) = JStr ''PASS''\<close>
    by (simp add: example_defs stage_defs)
  have c: \<open>snd (processChapterWithAI example_runtime
            (example_replies\<lparr>gpt_reply := Threw\<rparr>) example_photos ''math'' 3) = [Gemini, GPT]\<close>
    using pipeline_call_bound
      [where rt = example_runtime and world = \<open>example_replies\<lparr>gpt_reply := Threw\<rparr>\<close>
         and photos = example_photos and subject = \<open>''math''\<close> and grade = 3
         and parts = \<open>[(''iVBORw0KGgo='', ''image/png'')]\<close>
         and content = \<open>JObj [(''topic'', JStr ''Fractions'')]\<close>]
      avail photos_ok g_ok [of \<open>example_replies\<lparr>gpt_reply := Threw\<rparr>\<close>] v_pass
    by (simp add: example_replies_def)
  have v_fail: \<open>fst (verifyWithGPT example_runtime (gpt_reply example_replies)
        (JObj [(''topic'', JStr ''Fractions'')]))
      = \<lparr>status = JStr ''FAIL'', issues = JArr [JStr ''Question 2 is ambiguous'']\<rparr>\<close>
    by (simp add: example_defs example_replies_def stage_defs)
  have d: \<open>snd (processChapterWithAI example_runtime example_replies example_photos ''math'' 3)
       = [Gemini, GPT, Claude, GPT]\<close>
    using pipeline_call_bound
      [where rt = example_runtime and world = example_replies
         and photos = example_photos and subject = \<open>''math''\<close> and grade = 3
         and parts = \<open>[(''iVBORw0KGgo='', ''image/png'')]\<close>
         and content = \<open>JObj [(''topic'', JStr ''Fractions'')]\<close>
         and found = \<open>[JStr ''Question 2 is ambiguous'']\<close>]
      avail photos_ok g_ok [of example_replies] v_fail
    by (simp add: example_replies_def)
  from a b c d show ?thesis by simp
qed

text \<open>
  C6 as stated fails: a photo sent as bare base64, without the \<open>data:\<close> prefix, ends the
  run in \<open>extractBase64\<close> before any invocation.
\<close>

theorem pipeline_no_call_counterexample:
  \<open>processChapterWithAI example_runtime example_replies [''iVBORw0KGgo=''] ''math'' 3
     = (Inl (Error ''Invalid data URL format''), [])
   \<and> length (snd (processChapterWithAI example_runtime example_replies
                     [''iVBORw0KGgo=''] ''math'' 3)) \<notin> {1, 2, 3, 4}\<close>
  by (simp add: processChapterWithAI_def example_defs example_replies_def stage_defs)

section \<open>Properties of the routes\<close>

lemmas storage_example_defs =
  example_storage_def example_child_1_def example_child_2_def example_chapter_1_def
  example_chapter_2_def example_result_1_def

lemmas query_defs =
  getChildById_def getChapterById_def getResultById_def getResultByChapter_def
  getChaptersByChild_def getResultsByChild_def

subsection \<open>Reading a chapter or a result\<close>








subsection \<open>Child login\<close>

lemma login_failure_cases:
  "login_childCookie (post_child_login verify st req) = Some (c, p) \<Longrightarrow>
   login_status (post_child_login verify st req) = 200
   \<and> body_childId req = Some c
   \<and> (\<exists>token. cookie_parentToken req = Some token \<and> verify token = Some p)
   \<and> (\<exists>child. getChildById st c = Some child \<and> child_parentId child = p)"
  by (auto simp add: post_child_login_def Let_def split: option.splits if_splits)

lemma login_status_cookie:
  "login_status (post_child_login verify st req) \<noteq> 200 \<Longrightarrow>
   login_childCookie (post_child_login verify st req) = None"
  by (auto simp add: post_child_login_def Let_def split: option.splits if_splits)

lemma login_forbidden:
  assumes "body_childId req = Some c" "c \<noteq> []"
      and "cookie_parentToken req = Some token" "token \<noteq> []" "verify token = Some p"
      and "getChildById st c = None
           \<or> (\<exists>child. getChildById st c = Some child \<and> child_parentId child \<noteq> p)"
  shows "post_child_login verify st req
         = \<lparr>login_status = 403, login_childCookie = None, login_child = None\<rparr>"
  using assms by (auto simp add: post_child_login_def Let_def)

text \<open>
  C2. \<open>POST /api/child/login\<close> sets the child cookie only on a 200, for a parent token
  that \<open>verifyParentToken\<close> accepts and a child whose \<open>parentId\<close> is the token's
  parent. With such a token and a child id in the body, a child that does not exist or
  belongs to another parent is answered 403 with no cookie, whatever else the request
  holds. No answer other than 200 sets the cookie.
\<close>

theorem child_login_requires_owner:
  "(login_childCookie (post_child_login verify st req) = Some (c, p) \<longrightarrow>
      login_status (post_child_login verify st req) = 200
      \<and> body_childId req = Some c
      \<and> (\<exists>token. cookie_parentToken req = Some token \<and> verify token = Some p)
      \<and> (\<exists>child. getChildById st c = Some child \<and> child_parentId child = p))
   \<and> (body_childId req = Some c \<and> c \<noteq> []
        \<and> cookie_parentToken req = Some token \<and> token \<noteq> [] \<and> verify token = Some p
        \<and> (getChildById st c = None
            \<or> (\<exists>child. getChildById st c = Some child \<and> child_parentId child \<noteq> p))
      \<longrightarrow> post_child_login verify st req
          = \<lparr>login_status = 403, login_childCookie = None, login_child = None\<rparr>)
   \<and> (login_status (post_child_login verify st req) \<noteq> 200 \<longrightarrow>
        login_childCookie (post_child_login verify st req) = None)"
  using login_failure_cases [of verify st req c p] login_status_cookie [of verify st req]
    login_forbidden [of req c token verify p st]
  by blast

theorem child_login_requires_owner_witness:
  "post_child_login example_verifyParentToken example_storage
     \<lparr>body_childId = Some ''child-2'', cookie_parentToken = Some ''token-of-parent-1''\<rparr>
     = \<lparr>login_status = 403, login_childCookie = None, login_child = None\<rparr>
   \<and> post_child_login example_verifyParentToken example_storage
     \<lparr>body_childId = Some ''child-9'', cookie_parentToken = Some ''token-of-parent-1''\<rparr>
     = \<lparr>login_status = 403, login_childCookie = None, login_child = None\<rparr>
   \<and> login_childCookie (post_child_login example_verifyParentToken example_storage
     \<lparr>body_childId = Some ''child-1'', cookie_parentToken = Some ''token-of-parent-1''\<rparr>)
     = Some (''child-1'', ''parent-1'')
   \<and> login_status (post_child_login example_verifyParentToken example_storage
     \<lparr>body_childId = Some ''child-1'', cookie_parentToken = Some ''token-of-parent-1''\<rparr>)
     = 200"
proof -
  have c2: "getChildById example_storage ''child-2'' = Some example_child_2"
    by (simp add: query_defs storage_example_defs)
  have c9: "getChildById example_storage ''child-9'' = None"
    by (simp add: query_defs storage_example_defs)
  have a: "post_child_login example_verifyParentToken example_storage
     \<lparr>body_childId = Some ''child-2'', cookie_parentToken = Some ''token-of-parent-1''\<rparr>
     = \<lparr>login_status = 403, login_childCookie = None, login_child = None\<rparr>"
    using child_login_requires_owner
      [where verify = example_verifyParentToken and st = example_storage
         and req = "\<lparr>body_childId = Some ''child-2'',
                       cookie_parentToken = Some ''token-of-parent-1''\<rparr>"
         and c = "''child-2''" and token = "''token-of-parent-1''" and p = "''parent-1''"] c2
    by (simp add: example_verifyParentToken_def example_child_2_def)
  have b: "post_child_login example_verifyParentToken example_storage
     \<lparr>body_childId = Some ''child-9'', cookie_parentToken = Some ''token-of-parent-1''\<rparr>
     = \<lparr>login_status = 403, login_childCookie = None, login_child = None\<rparr>"
    using child_login_requires_owner
      [where verify = example_verifyParentToken and st = example_storage
         and req = "\<lparr>body_childId = Some ''child-9'',
                       cookie_parentToken = Some ''token-of-parent-1''\<rparr>"
         and c = "''child-9''" and token = "''token-of-parent-1''" and p = "''parent-1''"] c9
    by (simp add: example_verifyParentToken_def)
  have ok: "post_child_login example_verifyParentToken example_storage
     \<lparr>body_childId = Some ''child-1'', cookie_parentToken = Some ''token-of-parent-1''\<rparr>
     = \<lparr>login_status = 200, login_childCookie = Some (''child-1'', ''parent-1''),
        login_child = Some (''child-1'', ''Sara'')\<rparr>"
    by (simp add: post_child_login_def Let_def example_verifyParentToken_def query_defs
          storage_example_defs)
  from a b ok show ?thesis by simp
qed

subsection \<open>The routes of a child, called by a parent\<close>

text \<open>
  C9 fails on the code. With the session of parent 2 and no child session,
  \<open>GET /api/children/:id\<close>, \<open>GET /api/children/:childId/chapters\<close> and
  \<open>GET /api/children/:childId/results\<close> look nothing up about the owner: asked for
  child 1, of parent 1, they return the child, its chapters, among them one of parent 1,
  and its results.
\<close>

theorem children_routes_leak_to_other_parent:
  "get_children_id example_storage
     \<lparr>authenticatedChildId = None, authenticatedParentId = Some ''parent-2''\<rparr> ''child-1''
     = Json example_child_1
   \<and> child_parentId example_child_1 = ''parent-1''
   \<and> get_children_childId_chapters example_storage
     \<lparr>authenticatedChildId = None, authenticatedParentId = Some ''parent-2''\<rparr> ''child-1''
     = Json [example_chapter_2, example_chapter_1]
   \<and> chapter_parentId example_chapter_1 = ''parent-1''
   \<and> get_children_childId_results example_storage
     \<lparr>authenticatedChildId = None, authenticatedParentId = Some ''parent-2''\<rparr> ''child-1''
     = Json [example_result_1]
   \<and> getChapterById example_storage (result_chapterId example_result_1)
     = Some example_chapter_1"
  by (simp add: get_children_id_def get_children_childId_chapters_def
        get_children_childId_results_def string_or_def Let_def query_defs
        storage_example_defs)

subsection \<open>The writes of a run to its chapter\<close>








end
